theory Spec2Isabelle
  imports Complex_Main
begin

section \<open>Python values and exceptions\<close>

text \<open>
  The resource server (\<^verbatim>\<open>mcp-crash-course-project-resources/main.py\<close>) reshapes the
  value that \<^verbatim>\<open>response.json()\<close> returns. That value is any decoded JSON document:
  \<^verbatim>\<open>None\<close>, a \<^verbatim>\<open>bool\<close>, an \<^verbatim>\<open>int\<close>, a \<^verbatim>\<open>float\<close>, a \<^verbatim>\<open>str\<close>, a \<^verbatim>\<open>list\<close> or a
  \<^verbatim>\<open>dict\<close> with string keys (an association list in insertion order, each key once; a
  key is looked up at its first occurrence).

  Two idealisations. A Python \<^verbatim>\<open>float\<close> is modelled by the exact rational it denotes, so
  rounding to binary64, infinities and NaN are outside the model; only the range limit of
  the integer true division is kept (\<^verbatim>\<open>OverflowError\<close>). A Python \<^verbatim>\<open>str\<close> is modelled by
  a list of 8-bit characters: ASCII text is its code points, the one non-ASCII letter of
  the messages is written as its two UTF-8 bytes, and the case mappings below act on ASCII
  letters only.
\<close>

datatype json =
    JNull
  | JBool bool
  | JInt int
  | JFloat rat
  | JStr string
  | JArr "json list"
  | JObj "(string \<times> json) list"

text \<open>
  The exception classes that the handlers can meet. \<^verbatim>\<open>ResourceError\<close>, \<^verbatim>\<open>RequestError\<close>,
  \<^verbatim>\<open>KeyError\<close> and \<^verbatim>\<open>ValueError\<close> carry the text that \<^verbatim>\<open>str(e)\<close> gives.
\<close>

datatype exn =
    ResourceError string
  | RequestError string
  | KeyError string
  | ValueError string
  | TypeError
  | AttributeError
  | OverflowError

text \<open>Sequencing of two computations that may raise: the first exception wins.\<close>

definition andThen :: "exn + 'a \<Rightarrow> ('a \<Rightarrow> exn + 'b) \<Rightarrow> exn + 'b" where
  "andThen m f = (case m of Inl e \<Rightarrow> Inl e | Inr x \<Rightarrow> f x)"

text \<open>A comprehension \<^verbatim>\<open>[f(x) for x in xs]\<close>: left to right, stopping at the first exception.\<close>

fun comprehension :: "('a \<Rightarrow> exn + 'b) \<Rightarrow> 'a list \<Rightarrow> exn + 'b list" where
  "comprehension f [] = Inr []"
| "comprehension f (x # xs) =
     (case f x of
        Inl e \<Rightarrow> Inl e
      | Inr y \<Rightarrow> (case comprehension f xs of Inl e \<Rightarrow> Inl e | Inr ys \<Rightarrow> Inr (y # ys)))"

subsection \<open>Strings\<close>

definition py_upper_char :: "char \<Rightarrow> char" where
  "py_upper_char c =
     (case map_of (zip ''abcdefghijklmnopqrstuvwxyz'' ''ABCDEFGHIJKLMNOPQRSTUVWXYZ'') c of
        Some u \<Rightarrow> u
      | None \<Rightarrow> c)"

definition py_lower_char :: "char \<Rightarrow> char" where
  "py_lower_char c =
     (case map_of (zip ''ABCDEFGHIJKLMNOPQRSTUVWXYZ'' ''abcdefghijklmnopqrstuvwxyz'') c of
        Some l \<Rightarrow> l
      | None \<Rightarrow> c)"

text \<open>\<^verbatim>\<open>str.capitalize()\<close>: the first character upper-cased, all the others lower-cased.\<close>

fun capitalize :: "string \<Rightarrow> string" where
  "capitalize [] = []"
| "capitalize (c # cs) = py_upper_char c # map py_lower_char cs"

text \<open>\<^verbatim>\<open>x.capitalize()\<close> on a decoded value: only \<^verbatim>\<open>str\<close> has the method.\<close>

fun capitalize_method :: "json \<Rightarrow> exn + string" where
  "capitalize_method (JStr s) = Inr (capitalize s)"
| "capitalize_method _ = Inl AttributeError"

text \<open>The text of a \<^verbatim>\<open>str\<close> value, for the f-string that follows a successful \<^verbatim>\<open>capitalize\<close>.\<close>

fun str_text :: "json \<Rightarrow> exn + string" where
  "str_text (JStr s) = Inr s"
| "str_text _ = Inl AttributeError"

text \<open>\<^verbatim>\<open>repr\<close> of a key made of plain letters, as \<^verbatim>\<open>str(KeyError(key))\<close> prints it.\<close>

definition repr_key :: "string \<Rightarrow> string" where
  "repr_key k = [CHR 0x27] @ k @ [CHR 0x27]"

text \<open>Decimal text of a status code, as \<^verbatim>\<open>f"{response.status_code}"\<close> prints it.\<close>

definition digit_char :: "nat \<Rightarrow> char" where
  "digit_char d = ''0123456789'' ! d"

fun str_nat :: "nat \<Rightarrow> string" where
  "str_nat n = (if n < 10 then [digit_char n] else str_nat (n div 10) @ [digit_char (n mod 10)])"

declare str_nat.simps [simp del]

subsection \<open>Operations on decoded values\<close>

text \<open>\<^verbatim>\<open>x["key"]\<close> with a string key.\<close>

fun subscript :: "json \<Rightarrow> string \<Rightarrow> exn + json" where
  "subscript (JObj kvs) k =
     (case map_of kvs k of None \<Rightarrow> Inl (KeyError (repr_key k)) | Some v \<Rightarrow> Inr v)"
| "subscript _ k = Inl TypeError"

text \<open>
  \<^verbatim>\<open>x[:10]\<close>. Slicing a \<^verbatim>\<open>dict\<close> looks the slice object up as a key (Python 3.12 and
  later; earlier versions raise \<^verbatim>\<open>TypeError\<close> because a slice is unhashable).
\<close>

fun slice10 :: "json \<Rightarrow> exn + json" where
  "slice10 (JArr xs) = Inr (JArr (take 10 xs))"
| "slice10 (JStr s) = Inr (JStr (take 10 s))"
| "slice10 (JObj kvs) = Inl (KeyError ''slice(None, 10, None)'')"
| "slice10 _ = Inl TypeError"

text \<open>\<^verbatim>\<open>len(x)\<close>.\<close>

fun py_len :: "json \<Rightarrow> exn + int" where
  "py_len (JArr xs) = Inr (int (length xs))"
| "py_len (JStr s) = Inr (int (length s))"
| "py_len (JObj kvs) = Inr (int (length kvs))"
| "py_len _ = Inl TypeError"

text \<open>\<^verbatim>\<open>for x in v\<close>: a list yields its items, a string its characters, a dict its keys.\<close>

fun iterate :: "json \<Rightarrow> exn + json list" where
  "iterate (JArr xs) = Inr xs"
| "iterate (JStr s) = Inr (map (\<lambda>c. JStr [c]) s)"
| "iterate (JObj kvs) = Inr (map (\<lambda>kv. JStr (fst kv)) kvs)"
| "iterate _ = Inl TypeError"

text \<open>
  The numeric value of an operand of \<^verbatim>\<open>/\<close>: \<^verbatim>\<open>bool\<close> is a subclass of \<^verbatim>\<open>int\<close>; every
  other class has no division by an \<^verbatim>\<open>int\<close>.
\<close>

fun py_num :: "json \<Rightarrow> rat option" where
  "py_num (JBool b) = Some (if b then 1 else 0)"
| "py_num (JInt n) = Some (of_int n)"
| "py_num (JFloat r) = Some r"
| "py_num _ = None"

text \<open>
  \<^verbatim>\<open>x / 10\<close>. The quotient of two integers is rounded to the nearest float and raises
  \<^verbatim>\<open>OverflowError\<close> when that is beyond the largest finite binary64 value.
\<close>

definition float_limit :: rat where
  "float_limit = 2 ^ 1024 - 2 ^ 970"

fun is_float :: "json \<Rightarrow> bool" where
  "is_float (JFloat r) = True"
| "is_float _ = False"

definition truediv10 :: "json \<Rightarrow> exn + json" where
  "truediv10 x =
     (case py_num x of
        None \<Rightarrow> Inl TypeError
      | Some q \<Rightarrow>
          if \<not> is_float x \<and> float_limit \<le> \<bar>q / 10\<bar> then Inl OverflowError
          else Inr (JFloat (q / 10)))"

subsection \<open>Dictionaries built by the handler\<close>

text \<open>
  A key of a Python \<^verbatim>\<open>dict\<close> must be hashable, and keys are compared with \<^verbatim>\<open>==\<close>:
  \<^verbatim>\<open>True\<close>, \<^verbatim>\<open>1\<close> and \<^verbatim>\<open>1.0\<close> are the same key.
\<close>

datatype key = KNone | KNum rat | KStr string

fun py_key :: "json \<Rightarrow> key option" where
  "py_key JNull = Some KNone"
| "py_key (JStr s) = Some (KStr s)"
| "py_key (JArr xs) = None"
| "py_key (JObj kvs) = None"
| "py_key x = map_option KNum (py_num x)"

text \<open>\<^verbatim>\<open>d[k] = v\<close>: an existing key keeps its place (and its first spelling), a new one is appended.\<close>

fun dict_set :: "json \<Rightarrow> json \<Rightarrow> (json \<times> json) list \<Rightarrow> (json \<times> json) list" where
  "dict_set k v [] = [(k, v)]"
| "dict_set k v ((k', v') # d) =
     (if py_key k' = py_key k then (k', v) # d else (k', v') # dict_set k v d)"


section \<open>The upstream HTTP API\<close>

text \<open>
  \<^verbatim>\<open>await client.get(url)\<close> either raises an \<^verbatim>\<open>httpx.RequestError\<close> (timeout, connection
  failure, ...) or returns a response. Of a response the handlers read \<^verbatim>\<open>status_code\<close>
  and call \<^verbatim>\<open>json()\<close>, which raises a \<^verbatim>\<open>ValueError\<close> (\<^verbatim>\<open>JSONDecodeError\<close>) when the body is
  not a JSON document and returns the decoded value otherwise.
\<close>

record response =
  status_code :: nat
  json_result :: "string + json"

datatype reply = Unreachable string | Replied response

definition client_get :: "(string \<Rightarrow> reply) \<Rightarrow> string \<Rightarrow> exn + response" where
  "client_get upstream url =
     (case upstream url of Unreachable m \<Rightarrow> Inl (RequestError m) | Replied r \<Rightarrow> Inr r)"

definition response_json :: "response \<Rightarrow> exn + json" where
  "response_json r = (case json_result r of Inl m \<Rightarrow> Inl (ValueError m) | Inr v \<Rightarrow> Inr v)"

section \<open>Starter listing\<close>

definition STARTERS :: "(string \<times> string) list" where
  "STARTERS = [(''1'', ''bulbasaur''), (''4'', ''charmander''), (''7'', ''squirtle'')]"

record starter_entry =
  starter_id :: string
  starter_name :: string
  starter_uri :: string

record starters_listing =
  starters :: "starter_entry list"
  total :: int

definition list_starters :: starters_listing where
  "list_starters =
     \<lparr> starters =
         map (\<lambda>(pid, name).
               \<lparr> starter_id = pid,
                 starter_name = capitalize name,
                 starter_uri = ''poke://pokemon/'' @ pid \<rparr>)
             STARTERS,
       total = int (length STARTERS) \<rparr>"

section \<open>Pok\'emon lookup by id or name\<close>

record pokemon_record =
  pokemon_id :: json
  name :: string
  height :: json
  weight :: json
  types :: "json list"
  abilities :: "json list"
  base_stats :: "(json \<times> json) list"
  sprite :: json
  api_url :: string

text \<open>The f-string of the request URL (it is written once more for \<^verbatim>\<open>api_url\<close>).\<close>

definition pokemon_url :: "string \<Rightarrow> string" where
  "pokemon_url pokemon_id_or_name = ''https://pokeapi.co/api/v2/pokemon/'' @ pokemon_id_or_name"

text \<open>\<^verbatim>\<open>t["type"]["name"]\<close>, and \<^verbatim>\<open>a["ability"]["name"]\<close>, \<^verbatim>\<open>stat["stat"]["name"]\<close>.\<close>

definition nested_name :: "string \<Rightarrow> json \<Rightarrow> exn + json" where
  "nested_name field t = andThen (subscript t field) (\<lambda>x. subscript x ''name'')"

text \<open>\<^verbatim>\<open>[t["type"]["name"] for t in data["types"]]\<close> and its sibling for abilities.\<close>

definition nested_names :: "string \<Rightarrow> json \<Rightarrow> exn + json list" where
  "nested_names field v = andThen (iterate v) (comprehension (nested_name field))"

text \<open>
  \<^verbatim>\<open>{stat["stat"]["name"]: stat["base_stat"] for stat in data["stats"]}\<close>: for each item
  the key is evaluated, then the value, then the pair is stored (an unhashable key raises
  \<^verbatim>\<open>TypeError\<close> there).
\<close>

definition stat_item :: "json \<Rightarrow> exn + json \<times> json" where
  "stat_item stat =
     andThen (nested_name ''stat'' stat) (\<lambda>k.
     andThen (subscript stat ''base_stat'') (\<lambda>v. Inr (k, v)))"

fun stats_dict :: "json list \<Rightarrow> (json \<times> json) list \<Rightarrow> exn + (json \<times> json) list" where
  "stats_dict [] d = Inr d"
| "stats_dict (stat # rest) d =
     (case stat_item stat of
        Inl e \<Rightarrow> Inl e
      | Inr (k, v) \<Rightarrow>
          (case py_key k of
             None \<Rightarrow> Inl TypeError
           | Some _ \<Rightarrow> stats_dict rest (dict_set k v d)))"

text \<open>The dictionary display of the \<^verbatim>\<open>return\<close> statement, its items evaluated in order.\<close>

definition pokemon_of_data :: "string \<Rightarrow> json \<Rightarrow> exn + pokemon_record" where
  "pokemon_of_data pokemon_id_or_name data =
     andThen (subscript data ''id'') (\<lambda>i.
     andThen (andThen (subscript data ''name'') capitalize_method) (\<lambda>n.
     andThen (andThen (subscript data ''height'') truediv10) (\<lambda>h.
     andThen (andThen (subscript data ''weight'') truediv10) (\<lambda>w.
     andThen (andThen (subscript data ''types'') (nested_names ''type'')) (\<lambda>ts.
     andThen (andThen (subscript data ''abilities'') (nested_names ''ability'')) (\<lambda>as.
     andThen (andThen (andThen (subscript data ''stats'') iterate) (\<lambda>ss. stats_dict ss [])) (\<lambda>bs.
     andThen (andThen (subscript data ''sprites'') (\<lambda>x. subscript x ''front_default'')) (\<lambda>sp.
       Inr \<lparr> pokemon_id = i, name = n, height = h, weight = w, types = ts, abilities = as,
             base_stats = bs, sprite = sp,
             api_url = pokemon_url pokemon_id_or_name \<rparr>))))))))"

text \<open>The body of the \<^verbatim>\<open>try\<close> block.\<close>

definition get_pokemon_try :: "(string \<Rightarrow> reply) \<Rightarrow> string \<Rightarrow> exn + pokemon_record" where
  "get_pokemon_try upstream pokemon_id_or_name =
     andThen (client_get upstream (pokemon_url pokemon_id_or_name))
       (\<lambda>response.
          if status_code response = 404 then
            Inl (ResourceError (''Pok'' @ [CHR 0xC3, CHR 0xA9] @ ''mon with ID/name ''
                   @ [CHR 0x27] @ pokemon_id_or_name @ [CHR 0x27] @ '' not found''))
          else if status_code response \<noteq> 200 then
            Inl (ResourceError (''PokeAPI error: HTTP '' @ str_nat (status_code response)))
          else
            andThen (response_json response) (pokemon_of_data pokemon_id_or_name))"

text \<open>
  The two \<^verbatim>\<open>except\<close> clauses: \<^verbatim>\<open>httpx.RequestError\<close>, then \<^verbatim>\<open>(KeyError, ValueError)\<close>.
  Every other exception leaves the handler as it is.
\<close>

fun get_pokemon_except :: "exn \<Rightarrow> exn" where
  "get_pokemon_except (RequestError m) =
     ResourceError (''Failed to fetch Pok'' @ [CHR 0xC3, CHR 0xA9] @ ''mon data: '' @ m)"
| "get_pokemon_except (KeyError m) =
     ResourceError (''Error processing Pok'' @ [CHR 0xC3, CHR 0xA9] @ ''mon data: '' @ m)"
| "get_pokemon_except (ValueError m) =
     ResourceError (''Error processing Pok'' @ [CHR 0xC3, CHR 0xA9] @ ''mon data: '' @ m)"
| "get_pokemon_except e = e"

definition get_pokemon :: "(string \<Rightarrow> reply) \<Rightarrow> string \<Rightarrow> exn + pokemon_record" where
  "get_pokemon upstream pokemon_id_or_name =
     (case get_pokemon_try upstream pokemon_id_or_name of
        Inl e \<Rightarrow> Inl (get_pokemon_except e)
      | Inr r \<Rightarrow> Inr r)"

section \<open>Pok\'emon lookup by type\<close>

record type_entry =
  entry_name :: string
  entry_uri :: string

record type_summary =
  type_display :: string
  type_id :: json
  pokemon_count :: int
  showing :: int
  pokemon :: "type_entry list"

definition type_url :: "string \<Rightarrow> string" where
  "type_url type_name = ''https://pokeapi.co/api/v2/type/'' @ type_name"

text \<open>
  One item of the comprehension over \<^verbatim>\<open>pokemon_list\<close>: the \<^verbatim>\<open>name\<close> entry, then the
  \<^verbatim>\<open>uri\<close> entry. The f-string of the \<^verbatim>\<open>uri\<close> is reached only after \<^verbatim>\<open>capitalize\<close> has
  returned on the same value, which is then a \<^verbatim>\<open>str\<close>.
\<close>

definition type_entry_of :: "json \<Rightarrow> exn + type_entry" where
  "type_entry_of p =
     andThen (andThen (nested_name ''pokemon'' p)
                capitalize_method) (\<lambda>n.
     andThen (andThen (nested_name ''pokemon'' p)
                str_text) (\<lambda>s.
       Inr \<lparr> entry_name = n, entry_uri = ''poke://pokemon/'' @ s \<rparr>))"

definition type_summary_of_data :: "string \<Rightarrow> json \<Rightarrow> exn + type_summary" where
  "type_summary_of_data type_name data =
     andThen (andThen (subscript data ''pokemon'') slice10) (\<lambda>pokemon_list.
     andThen (subscript data ''id'') (\<lambda>i.
     andThen (andThen (subscript data ''pokemon'') py_len) (\<lambda>c.
     andThen (py_len pokemon_list) (\<lambda>s.
     andThen (andThen (iterate pokemon_list) (comprehension type_entry_of)) (\<lambda>ps.
       Inr \<lparr> type_display = capitalize type_name, type_id = i, pokemon_count = c,
             showing = s, pokemon = ps \<rparr>)))))"

definition get_pokemon_by_type_try :: "(string \<Rightarrow> reply) \<Rightarrow> string \<Rightarrow> exn + type_summary" where
  "get_pokemon_by_type_try upstream type_name =
     andThen (client_get upstream (type_url type_name))
       (\<lambda>response.
          if status_code response = 404 then
            Inl (ResourceError (''Type '' @ [CHR 0x27] @ type_name @ [CHR 0x27] @ '' not found''))
          else if status_code response \<noteq> 200 then
            Inl (ResourceError (''PokeAPI error: HTTP '' @ str_nat (status_code response)))
          else
            andThen (response_json response) (type_summary_of_data type_name))"

fun get_pokemon_by_type_except :: "exn \<Rightarrow> exn" where
  "get_pokemon_by_type_except (RequestError m) =
     ResourceError (''Failed to fetch type data: '' @ m)"
| "get_pokemon_by_type_except (KeyError m) =
     ResourceError (''Error processing type data: '' @ m)"
| "get_pokemon_by_type_except (ValueError m) =
     ResourceError (''Error processing type data: '' @ m)"
| "get_pokemon_by_type_except e = e"

definition get_pokemon_by_type :: "(string \<Rightarrow> reply) \<Rightarrow> string \<Rightarrow> exn + type_summary" where
  "get_pokemon_by_type upstream type_name =
     (case get_pokemon_by_type_try upstream type_name of
        Inl e \<Rightarrow> Inl (get_pokemon_by_type_except e)
      | Inr r \<Rightarrow> Inr r)"

section \<open>The three resources together\<close>





text \<open>An upstream that gives the same reply to every request.\<close>

definition always :: "reply \<Rightarrow> string \<Rightarrow> reply" where
  "always r url = r"

definition ok_reply :: "json \<Rightarrow> reply" where
  "ok_reply data = Replied \<lparr> status_code = 200, json_result = Inr data \<rparr>"

section \<open>Start of the agent client\<close>

text \<open>
  The module level of \<^verbatim>\<open>mcp-crash-course-project-langchain-mcp-adapters/main.py\<close>. The
  process environment is a map from names to values. \<^verbatim>\<open>load_dotenv()\<close> adds the bindings
  of the \<^verbatim>\<open>.env\<close> file (none when there is no file) for the names the environment does not
  have yet. \<^verbatim>\<open>os.getenv\<close> gives \<^verbatim>\<open>None\<close> for a name without a value, and the assignment
  \<^verbatim>\<open>os.environ[k] = v\<close> raises \<^verbatim>\<open>TypeError\<close> when \<^verbatim>\<open>v\<close> is not a \<^verbatim>\<open>str\<close>.
\<close>

type_synonym environ = "string \<rightharpoonup> string"

definition load_dotenv :: "environ \<Rightarrow> environ \<Rightarrow> environ" where
  "load_dotenv dotenv env = dotenv ++ env"

definition getenv :: "environ \<Rightarrow> string \<Rightarrow> string option" where
  "getenv env k = env k"

definition environ_setitem :: "environ \<Rightarrow> string \<Rightarrow> string option \<Rightarrow> exn + environ" where
  "environ_setitem env k v =
     (case v of None \<Rightarrow> Inl TypeError | Some s \<Rightarrow> Inr (env(k \<mapsto> s)))"

definition module_setup :: "environ \<Rightarrow> environ \<Rightarrow> exn + environ" where
  "module_setup dotenv env =
     (let env1 = load_dotenv dotenv env
      in environ_setitem env1 ''GROQ_API_KEY'' (getenv env1 ''GROQ_API_KEY''))"

text \<open>
  What follows line 19, in program order: the model object, then \<^verbatim>\<open>main()\<close>, which opens
  the stdio client (this launches the server subprocess), opens and initialises the
  session, loads the tools, builds the agent, invokes it and prints the answer. Each step
  belongs to a library; \<open>outcome\<close> says which step raises, if any. A run is the list of
  the steps that were started and the exception that ended it, if any.
\<close>

datatype client_step = ConstructModel | LaunchServer | OpenSession | InitializeSession
  | LoadTools | CreateAgent | InvokeAgent | PrintAnswer

definition client_steps :: "client_step list" where
  "client_steps = [ConstructModel, LaunchServer, OpenSession, InitializeSession,
                   LoadTools, CreateAgent, InvokeAgent, PrintAnswer]"

fun run_steps :: "(client_step \<Rightarrow> exn option) \<Rightarrow> client_step list \<Rightarrow> client_step list \<times> exn option" where
  "run_steps outcome [] = ([], None)"
| "run_steps outcome (s # ss) =
     (case outcome s of
        Some e \<Rightarrow> ([s], Some e)
      | None \<Rightarrow> (let (done, r) = run_steps outcome ss in (s # done, r)))"

definition client_process ::
    "environ \<Rightarrow> environ \<Rightarrow> (client_step \<Rightarrow> exn option) \<Rightarrow> client_step list \<times> exn option" where
  "client_process dotenv env outcome =
     (case module_setup dotenv env of
        Inl e \<Rightarrow> ([], Some e)
      | Inr env' \<Rightarrow> run_steps outcome client_steps)"

text \<open>A run in which no library step raises.\<close>

definition no_failure :: "client_step \<Rightarrow> exn option" where
  "no_failure step = None"

section \<open>Sample upstream payloads\<close>

text \<open>
  A payload of the shape that \<^verbatim>\<open>GET /api/v2/pokemon/1\<close> returns, cut down to one
  ability and one stat, with its name, height and list of types left open.
\<close>

definition type_slot :: "string \<Rightarrow> json" where
  "type_slot t = JObj [(''slot'', JInt 1), (''type'', JObj [(''name'', JStr t)])]"

definition pokemon_payload :: "string \<Rightarrow> int \<Rightarrow> json list \<Rightarrow> json" where
  "pokemon_payload n h ts =
     JObj [(''id'', JInt 1), (''name'', JStr n), (''height'', JInt h), (''weight'', JInt 69),
           (''types'', JArr ts),
           (''abilities'', JArr [JObj [(''ability'', JObj [(''name'', JStr ''overgrow'')])]]),
           (''stats'', JArr [JObj [(''base_stat'', JInt 45),
                                  (''stat'', JObj [(''name'', JStr ''hp'')])]]),
           (''sprites'', JObj [(''front_default'', JNull)])]"

text \<open>A payload of the shape that \<^verbatim>\<open>GET /api/v2/type/fire\<close> returns, with its members.\<close>

definition type_member :: "string \<Rightarrow> json" where
  "type_member n = JObj [(''pokemon'', JObj [(''name'', JStr n)]), (''slot'', JInt 1)]"

definition type_payload :: "json list \<Rightarrow> json" where
  "type_payload ms = JObj [(''id'', JInt 10), (''name'', JStr ''fire''), (''pokemon'', JArr ms)]"

text \<open>An upstream that answers one URL and is unreachable for every other.\<close>

definition upstream_at :: "string \<Rightarrow> reply \<Rightarrow> string \<Rightarrow> reply" where
  "upstream_at u r url = (if url = u then r else Unreachable ''connection refused'')"

definition fire_members :: "string list" where
  "fire_members = [''charmander'', ''charmeleon'', ''charizard'', ''vulpix'', ''ninetales'',
                   ''growlithe'', ''arcanine'', ''ponyta'', ''rapidash'', ''magmar'',
                   ''flareon'', ''moltres'']"


section \<open>Exceptions that leave a handler\<close>

text \<open>
  The classes that neither \<^verbatim>\<open>except\<close> clause names, and the property of a computation
  on a payload to raise nothing but \<^verbatim>\<open>KeyError\<close> and those.
\<close>

definition uncaught :: "exn \<Rightarrow> bool" where
  "uncaught e = (e = TypeError \<or> e = AttributeError \<or> e = OverflowError)"

definition raises_data_errors :: "exn + 'a \<Rightarrow> bool" where
  "raises_data_errors m = (case m of Inl e \<Rightarrow> (\<exists>k. e = KeyError k) \<or> uncaught e | Inr x \<Rightarrow> True)"

section \<open>Readings of the specification\<close>

text \<open>
  The specification's wording for the display name, "the upstream name with the first
  letter capitalized": the first character upper-cased, the others unchanged.
\<close>

fun first_letter_capitalized :: "string \<Rightarrow> string" where
  "first_letter_capitalized [] = []"
| "first_letter_capitalized (c # cs) = py_upper_char c # cs"


section \<open>Basic facts\<close>

lemma andThen_Inr [simp]: "andThen m f = Inr y \<longleftrightarrow> (\<exists>x. m = Inr x \<and> f x = Inr y)"
  by (cases m) (simp_all add: andThen_def)

lemma andThen_simps [simp]: "andThen (Inl e) f = Inl e" "andThen (Inr x) f = f x"
  by (simp_all add: andThen_def)

lemma comprehension_Inr: "comprehension f xs = Inr ys \<Longrightarrow> map f xs = map Inr ys"
  by (induction xs arbitrary: ys) (auto split: sum.splits)

lemmas handler_defs = get_pokemon_def get_pokemon_try_def get_pokemon_by_type_def
  get_pokemon_by_type_try_def client_get_def response_json_def

lemmas data_defs = pokemon_of_data_def type_summary_of_data_def type_entry_of_def
  nested_names_def nested_name_def stat_item_def truediv10_def float_limit_def repr_key_def

lemmas sample_defs = always_def ok_reply_def pokemon_payload_def type_slot_def type_payload_def
  type_member_def fire_members_def upstream_at_def pokemon_url_def type_url_def py_upper_char_def py_lower_char_def digit_char_def

text \<open>A lookup returns a record only from a reply with status 200 and a decodable body.\<close>

lemma get_pokemon_Inr:
  "get_pokemon upstream s = Inr r \<longleftrightarrow>
     (\<exists>resp data. upstream (pokemon_url s) = Replied resp \<and> status_code resp = 200
        \<and> json_result resp = Inr data \<and> pokemon_of_data s data = Inr r)"
  by (cases "upstream (pokemon_url s)")
     (auto simp: handler_defs split: sum.splits if_splits)

lemma get_pokemon_by_type_Inr:
  "get_pokemon_by_type upstream t = Inr r \<longleftrightarrow>
     (\<exists>resp data. upstream (type_url t) = Replied resp \<and> status_code resp = 200
        \<and> json_result resp = Inr data \<and> type_summary_of_data t data = Inr r)"
  by (cases "upstream (type_url t)")
     (auto simp: handler_defs split: sum.splits if_splits)

lemma slice10_iterate:
  "slice10 m = Inr l \<Longrightarrow>
     \<exists>ms. iterate m = Inr ms \<and> iterate l = Inr (take 10 ms)
        \<and> py_len m = Inr (int (length ms)) \<and> py_len l = Inr (int (min 10 (length ms)))"
  by (cases m) (auto simp: take_map)







section \<open>Starter listing: properties\<close>

text \<open>
  C3. The starter listing has no argument, reads no upstream reply and has no exception
  in its type; its value is the three entries for the ids 1, 4 and 7, in that order,
  with the names Bulbasaur, Charmander and Squirtle, the locators
  \<^verbatim>\<open>poke://pokemon/{id}\<close>, and the total 3.
\<close>

theorem list_starters_value:
  "list_starters =
     \<lparr> starters =
         [ \<lparr> starter_id = ''1'', starter_name = ''Bulbasaur'', starter_uri = ''poke://pokemon/1'' \<rparr>,
           \<lparr> starter_id = ''4'', starter_name = ''Charmander'', starter_uri = ''poke://pokemon/4'' \<rparr>,
           \<lparr> starter_id = ''7'', starter_name = ''Squirtle'', starter_uri = ''poke://pokemon/7'' \<rparr> ],
       total = 3 \<rparr>
   \<and> length (starters list_starters) = 3"
  by (simp add: list_starters_def STARTERS_def py_upper_char_def py_lower_char_def)

section \<open>Errors of the lookups\<close>

text \<open>
  Evaluating a payload raises \<^verbatim>\<open>KeyError\<close>, \<^verbatim>\<open>TypeError\<close>, \<^verbatim>\<open>AttributeError\<close> or
  \<^verbatim>\<open>OverflowError\<close> and nothing else; so a lookup that fails raises either the resource
  error or one of the three classes that the handlers do not catch.
\<close>

lemma rde_Inr: "raises_data_errors (Inr x)"
  by (simp add: raises_data_errors_def)

lemma rde_andThen:
  "raises_data_errors m \<Longrightarrow> (\<And>x. raises_data_errors (f x)) \<Longrightarrow> raises_data_errors (andThen m f)"
  by (cases m) (simp_all add: raises_data_errors_def)

lemma rde_subscript: "raises_data_errors (subscript v k)"
  by (cases v) (simp_all add: raises_data_errors_def uncaught_def split: option.splits)

lemma rde_capitalize_method: "raises_data_errors (capitalize_method v)"
  by (cases v) (simp_all add: raises_data_errors_def uncaught_def)

lemma rde_str_text: "raises_data_errors (str_text v)"
  by (cases v) (simp_all add: raises_data_errors_def uncaught_def)

lemma rde_truediv10: "raises_data_errors (truediv10 v)"
  by (simp add: truediv10_def raises_data_errors_def uncaught_def split: option.splits)

lemma rde_iterate: "raises_data_errors (iterate v)"
  by (cases v) (simp_all add: raises_data_errors_def uncaught_def)

lemma rde_slice10: "raises_data_errors (slice10 v)"
  by (cases v) (simp_all add: raises_data_errors_def uncaught_def)

lemma rde_py_len: "raises_data_errors (py_len v)"
  by (cases v) (simp_all add: raises_data_errors_def uncaught_def)

lemma rde_comprehension:
  "(\<And>x. raises_data_errors (f x)) \<Longrightarrow> raises_data_errors (comprehension f xs)"
proof (induction xs)
  case Nil
  show ?case by (simp add: raises_data_errors_def)
next
  case (Cons x xs)
  from Cons.prems [of x] Cons.IH [OF Cons.prems] show ?case
    by (simp add: raises_data_errors_def split: sum.splits)
qed

lemmas rde_intros = rde_andThen rde_Inr rde_subscript rde_capitalize_method rde_str_text
  rde_truediv10 rde_iterate rde_slice10 rde_py_len rde_comprehension

lemma rde_nested_name: "raises_data_errors (nested_name field v)"
  unfolding nested_name_def by (intro rde_intros)

lemma rde_nested_names: "raises_data_errors (nested_names field v)"
  unfolding nested_names_def by (intro rde_intros rde_nested_name)

lemma rde_stat_item: "raises_data_errors (stat_item v)"
  unfolding stat_item_def by (intro rde_intros rde_nested_name)

lemma rde_stats_dict: "raises_data_errors (stats_dict ss d)"
proof (induction ss arbitrary: d)
  case Nil
  show ?case by (simp add: raises_data_errors_def)
next
  case (Cons stat rest)
  show ?case
  proof (cases "stat_item stat")
    case (Inl e)
    with rde_stat_item [of stat] show ?thesis
      by (simp add: raises_data_errors_def)
  next
    case (Inr kv)
    obtain k v where "kv = (k, v)" by (cases kv)
    with Inr Cons.IH [of "dict_set k v d"] show ?thesis
      by (cases "py_key k") (simp_all add: raises_data_errors_def uncaught_def)
  qed
qed

lemma rde_type_entry_of: "raises_data_errors (type_entry_of p)"
  unfolding type_entry_of_def by (intro rde_intros rde_nested_name)

lemma rde_pokemon_of_data: "raises_data_errors (pokemon_of_data s data)"
  unfolding pokemon_of_data_def by (intro rde_intros rde_nested_names rde_stats_dict)

lemma rde_type_summary_of_data: "raises_data_errors (type_summary_of_data t data)"
  unfolding type_summary_of_data_def by (intro rde_intros rde_type_entry_of)

lemma get_pokemon_try_failure:
  assumes "get_pokemon_try upstream s = Inl e"
  shows "(\<exists>m. e = ResourceError m) \<or> (\<exists>m. e = RequestError m) \<or> (\<exists>m. e = KeyError m)
         \<or> (\<exists>m. e = ValueError m) \<or> uncaught e"
proof (cases "upstream (pokemon_url s)")
  case (Unreachable m)
  with assms show ?thesis
    by (auto simp: get_pokemon_try_def client_get_def)
next
  case (Replied resp)
  show ?thesis
  proof (cases "status_code resp = 200")
    case False
    with Replied assms show ?thesis
      by (auto simp: get_pokemon_try_def client_get_def split: if_splits)
  next
    case True
    with Replied assms have *: "andThen (response_json resp) (pokemon_of_data s) = Inl e"
      by (simp add: get_pokemon_try_def client_get_def)
    show ?thesis
    proof (cases "json_result resp")
      case (Inl m)
      with * show ?thesis by (auto simp: response_json_def)
    next
      case (Inr data)
      with * have "pokemon_of_data s data = Inl e" by (simp add: response_json_def)
      with rde_pokemon_of_data [of s data] show ?thesis
        by (auto simp: raises_data_errors_def)
    qed
  qed
qed

lemma get_pokemon_by_type_try_failure:
  assumes "get_pokemon_by_type_try upstream t = Inl e"
  shows "(\<exists>m. e = ResourceError m) \<or> (\<exists>m. e = RequestError m) \<or> (\<exists>m. e = KeyError m)
         \<or> (\<exists>m. e = ValueError m) \<or> uncaught e"
proof (cases "upstream (type_url t)")
  case (Unreachable m)
  with assms show ?thesis
    by (auto simp: get_pokemon_by_type_try_def client_get_def)
next
  case (Replied resp)
  show ?thesis
  proof (cases "status_code resp = 200")
    case False
    with Replied assms show ?thesis
      by (auto simp: get_pokemon_by_type_try_def client_get_def split: if_splits)
  next
    case True
    with Replied assms have *: "andThen (response_json resp) (type_summary_of_data t) = Inl e"
      by (simp add: get_pokemon_by_type_try_def client_get_def)
    show ?thesis
    proof (cases "json_result resp")
      case (Inl m)
      with * show ?thesis by (auto simp: response_json_def)
    next
      case (Inr data)
      with * have "type_summary_of_data t data = Inl e" by (simp add: response_json_def)
      with rde_type_summary_of_data [of t data] show ?thesis
        by (auto simp: raises_data_errors_def)
    qed
  qed
qed

lemma get_pokemon_failure:
  assumes "get_pokemon upstream s = Inl e"
  shows "(\<exists>m. e = ResourceError m) \<or> uncaught e"
proof -
  from assms obtain e' where e': "get_pokemon_try upstream s = Inl e'" "e = get_pokemon_except e'"
    by (auto simp: get_pokemon_def split: sum.splits)
  from get_pokemon_try_failure [OF e'(1)] e'(2) show ?thesis
    by (cases e') (simp_all add: uncaught_def)
qed

lemma get_pokemon_by_type_failure:
  assumes "get_pokemon_by_type upstream t = Inl e"
  shows "(\<exists>m. e = ResourceError m) \<or> uncaught e"
proof -
  from assms obtain e' where e': "get_pokemon_by_type_try upstream t = Inl e'"
      "e = get_pokemon_by_type_except e'"
    by (auto simp: get_pokemon_by_type_def split: sum.splits)
  from get_pokemon_by_type_try_failure [OF e'(1)] e'(2) show ?thesis
    by (cases e') (simp_all add: uncaught_def)
qed

text \<open>
  C1. Every failure of a lookup should surface as the one resource error, and no upstream
  behaviour should crash a handler. The handlers catch \<^verbatim>\<open>RequestError\<close>, \<^verbatim>\<open>KeyError\<close> and
  \<^verbatim>\<open>ValueError\<close> only: on a reply with status 200 whose body is the JSON document \<^verbatim>\<open>[]\<close>,
  \<^verbatim>\<open>data["id"]\<close> (and \<^verbatim>\<open>data["pokemon"]\<close>) raises \<^verbatim>\<open>TypeError\<close>, which leaves both handlers
  unwrapped.
\<close>

theorem wrong_type_payload_escapes:
  "get_pokemon (always (ok_reply (JArr []))) ''1'' = Inl TypeError
   \<and> get_pokemon_by_type (always (ok_reply (JArr []))) ''fire'' = Inl TypeError"
  by (simp add: handler_defs data_defs always_def ok_reply_def)

text \<open>
  C9. In both handlers a reply whose status is not 200 leaves the handler as the
  resource error raised for it, with its own message: the not-found message naming the
  identifier for 404, the message naming the status code otherwise. Neither \<^verbatim>\<open>except\<close>
  clause rewrites it.
\<close>

theorem status_error_not_rewrapped:
  "(upstream (pokemon_url s) = Replied resp \<and> status_code resp \<noteq> 200 \<longrightarrow>
      get_pokemon upstream s = Inl (ResourceError
        (if status_code resp = 404
         then ''Pok'' @ [CHR 0xC3, CHR 0xA9] @ ''mon with ID/name '' @ [CHR 0x27] @ s
                @ [CHR 0x27] @ '' not found''
         else ''PokeAPI error: HTTP '' @ str_nat (status_code resp))))
   \<and> (upstream (type_url t) = Replied resp' \<and> status_code resp' \<noteq> 200 \<longrightarrow>
      get_pokemon_by_type upstream t = Inl (ResourceError
        (if status_code resp' = 404
         then ''Type '' @ [CHR 0x27] @ t @ [CHR 0x27] @ '' not found''
         else ''PokeAPI error: HTTP '' @ str_nat (status_code resp'))))"
  by (simp add: handler_defs)

theorem status_error_not_rewrapped_witness:
  "get_pokemon (always (Replied \<lparr> status_code = 404, json_result = Inl ''Expecting value'' \<rparr>))
       ''999999''
     = Inl (ResourceError (''Pok'' @ [CHR 0xC3, CHR 0xA9] @ ''mon with ID/name ''
                             @ [CHR 0x27] @ ''999999'' @ [CHR 0x27] @ '' not found''))
   \<and> get_pokemon_by_type (always (Replied \<lparr> status_code = 503, json_result = Inl ''Expecting value'' \<rparr>))
       ''fire''
     = Inl (ResourceError ''PokeAPI error: HTTP 503'')"
proof -
  let ?r = "\<lparr> status_code = 404, json_result = Inl ''Expecting value'' \<rparr>"
  let ?r' = "\<lparr> status_code = 503, json_result = Inl ''Expecting value'' \<rparr>"
  have a: "always (Replied ?r) (pokemon_url ''999999'') = Replied ?r \<and> status_code ?r \<noteq> 200"
    by (simp add: always_def)
  have b: "always (Replied ?r') (type_url ''fire'') = Replied ?r' \<and> status_code ?r' \<noteq> 200"
    by (simp add: always_def)
  from a have "get_pokemon (always (Replied ?r)) ''999999''
      = Inl (ResourceError (''Pok'' @ [CHR 0xC3, CHR 0xA9] @ ''mon with ID/name ''
                             @ [CHR 0x27] @ ''999999'' @ [CHR 0x27] @ '' not found''))"
    using status_error_not_rewrapped [of "always (Replied ?r)" "''999999''" ?r]
    by simp
  moreover from b have "get_pokemon_by_type (always (Replied ?r')) ''fire''
      = Inl (ResourceError ''PokeAPI error: HTTP 503'')"
    using status_error_not_rewrapped [of "always (Replied ?r')" _ _ "''fire''" ?r']
    by (simp add: str_nat.simps digit_char_def)
  ultimately show ?thesis by simp
qed

section \<open>Pok\'emon lookup: properties\<close>

text \<open>
  C4, as the code has it. A successful lookup returns the upstream height and weight
  divided by 10, and as name the upstream name after \<^verbatim>\<open>str.capitalize()\<close>: its first
  character upper-cased and every other character lower-cased.
\<close>

theorem get_pokemon_name_height_weight:
  assumes "get_pokemon upstream s = Inr r"
    and "upstream (pokemon_url s) = Replied resp" and "json_result resp = Inr data"
  shows "\<exists>nm hv wv h w.
           subscript data ''name'' = Inr (JStr nm) \<and> name r = capitalize nm
         \<and> subscript data ''height'' = Inr hv \<and> py_num hv = Some h \<and> height r = JFloat (h / 10)
         \<and> subscript data ''weight'' = Inr wv \<and> py_num wv = Some w \<and> weight r = JFloat (w / 10)"
proof -
  from assms have ok: "pokemon_of_data s data = Inr r"
    by (auto simp: get_pokemon_Inr)
  then obtain nv hv wv n' h' w' where
    nv: "subscript data ''name'' = Inr nv" "capitalize_method nv = Inr n'" "name r = n'" and
    hv: "subscript data ''height'' = Inr hv" "truediv10 hv = Inr h'" "height r = h'" and
    wv: "subscript data ''weight'' = Inr wv" "truediv10 wv = Inr w'" "weight r = w'"
    by (auto simp: pokemon_of_data_def)
  from nv obtain nm where "nv = JStr nm" "n' = capitalize nm"
    by (cases nv) auto
  moreover from hv obtain h where "py_num hv = Some h" "h' = JFloat (h / 10)"
    by (auto simp: truediv10_def split: option.splits if_splits)
  moreover from wv obtain w where "py_num wv = Some w" "w' = JFloat (w / 10)"
    by (auto simp: truediv10_def split: option.splits if_splits)
  ultimately show ?thesis using nv hv wv by auto
qed

theorem get_pokemon_name_height_weight_witness:
  "get_pokemon (always (ok_reply (pokemon_payload ''bulbasaur'' 7 [type_slot ''grass'']))) ''1''
     = Inr \<lparr> pokemon_id = JInt 1, name = ''Bulbasaur'', height = JFloat (7 / 10),
             weight = JFloat (69 / 10), types = [JStr ''grass''],
             abilities = [JStr ''overgrow''], base_stats = [(JStr ''hp'', JInt 45)],
             sprite = JNull, api_url = ''https://pokeapi.co/api/v2/pokemon/1'' \<rparr>
   \<and> (\<exists>nm hv wv h w.
         subscript (pokemon_payload ''bulbasaur'' 7 [type_slot ''grass'']) ''name'' = Inr (JStr nm)
       \<and> ''Bulbasaur'' = capitalize nm
       \<and> subscript (pokemon_payload ''bulbasaur'' 7 [type_slot ''grass'']) ''height'' = Inr hv
       \<and> py_num hv = Some h \<and> JFloat (7 / 10) = JFloat (h / 10)
       \<and> subscript (pokemon_payload ''bulbasaur'' 7 [type_slot ''grass'']) ''weight'' = Inr wv
       \<and> py_num wv = Some w \<and> JFloat (69 / 10) = JFloat (w / 10))"
proof -
  let ?data = "pokemon_payload ''bulbasaur'' 7 [type_slot ''grass'']"
  let ?resp = "\<lparr> status_code = 200, json_result = Inr ?data \<rparr>"
  let ?r = "\<lparr> pokemon_id = JInt 1, name = ''Bulbasaur'', height = JFloat (7 / 10),
             weight = JFloat (69 / 10), types = [JStr ''grass''],
             abilities = [JStr ''overgrow''], base_stats = [(JStr ''hp'', JInt 45)],
             sprite = JNull, api_url = ''https://pokeapi.co/api/v2/pokemon/1'' \<rparr>"
  have a: "get_pokemon (always (ok_reply ?data)) ''1'' = Inr ?r"
    by (simp add: handler_defs data_defs sample_defs)
  have b: "always (ok_reply ?data) (pokemon_url ''1'') = Replied ?resp"
    by (simp add: always_def ok_reply_def)
  have c: "json_result ?resp = Inr ?data"
    by simp
  from get_pokemon_name_height_weight [OF a b c] a show ?thesis
    by simp
qed

text \<open>
  The claim as written ("the upstream name with the first letter capitalized") fails on
  a name with an upper-case letter after the first: \<^verbatim>\<open>"aB".capitalize()\<close> is \<^verbatim>\<open>"Ab"\<close>.
\<close>

theorem name_lowercases_the_rest:
  "get_pokemon (always (ok_reply (pokemon_payload ''aB'' 7 [type_slot ''grass'']))) ''1''
     = Inr \<lparr> pokemon_id = JInt 1, name = ''Ab'', height = JFloat (7 / 10),
             weight = JFloat (69 / 10), types = [JStr ''grass''],
             abilities = [JStr ''overgrow''], base_stats = [(JStr ''hp'', JInt 45)],
             sprite = JNull, api_url = ''https://pokeapi.co/api/v2/pokemon/1'' \<rparr>
   \<and> first_letter_capitalized ''aB'' = ''AB''
   \<and> ''Ab'' \<noteq> first_letter_capitalized ''aB''"
  by (simp add: handler_defs data_defs sample_defs)

text \<open>
  C10. A successful lookup with identifier \<open>s\<close> returns a record whose \<^verbatim>\<open>api_url\<close> is
  \<^verbatim>\<open>https://pokeapi.co/api/v2/pokemon/\<close> followed by \<open>s\<close>.
\<close>

theorem api_url_value:
  "get_pokemon upstream s = Inr r \<Longrightarrow> api_url r = ''https://pokeapi.co/api/v2/pokemon/'' @ s"
  by (auto simp: get_pokemon_Inr pokemon_of_data_def pokemon_url_def)

theorem api_url_value_witness:
  "get_pokemon (always (ok_reply (pokemon_payload ''pikachu'' 4 [type_slot ''electric''])))
       ''pikachu''
     = Inr \<lparr> pokemon_id = JInt 1, name = ''Pikachu'', height = JFloat (2 / 5),
             weight = JFloat (69 / 10), types = [JStr ''electric''],
             abilities = [JStr ''overgrow''], base_stats = [(JStr ''hp'', JInt 45)],
             sprite = JNull, api_url = ''https://pokeapi.co/api/v2/pokemon/pikachu'' \<rparr>"
proof -
  let ?up = "always (ok_reply (pokemon_payload ''pikachu'' 4 [type_slot ''electric'']))"
  obtain r where r: "get_pokemon ?up ''pikachu'' = Inr r"
    by (simp add: handler_defs data_defs sample_defs)
  from api_url_value [OF r] r show ?thesis
    by (simp add: handler_defs data_defs sample_defs)
qed







section \<open>Type lookup: properties\<close>

text \<open>
  C2. A successful type lookup on a payload whose member list has \<open>n\<close> entries returns
  \<^verbatim>\<open>pokemon_count\<close> \<open>n\<close>, \<^verbatim>\<open>showing\<close> \<open>min 10 n\<close>, and a \<^verbatim>\<open>pokemon\<close> list of \<open>min 10 n\<close>
  entries, which are the entries made of the first \<open>min 10 n\<close> upstream members, in
  upstream order.
\<close>

theorem type_lookup_counts_and_entries:
  assumes "get_pokemon_by_type upstream t = Inr r"
    and "upstream (type_url t) = Replied resp" and "json_result resp = Inr data"
  shows "\<exists>members ms.
           subscript data ''pokemon'' = Inr members \<and> iterate members = Inr ms
         \<and> pokemon_count r = int (length ms)
         \<and> showing r = int (min 10 (length ms))
         \<and> length (pokemon r) = min 10 (length ms)
         \<and> map type_entry_of (take 10 ms) = map Inr (pokemon r)"
proof -
  from assms have "type_summary_of_data t data = Inr r"
    by (auto simp: get_pokemon_by_type_Inr)
  then obtain members l c n xs ps where
    m: "subscript data ''pokemon'' = Inr members" "slice10 members = Inr l" and
    c: "py_len members = Inr c" "pokemon_count r = c" and
    n: "py_len l = Inr n" "showing r = n" and
    p: "iterate l = Inr xs" "comprehension type_entry_of xs = Inr ps" "pokemon r = ps"
    by (auto simp: type_summary_of_data_def)
  from slice10_iterate [OF m(2)] obtain ms where
    ms: "iterate members = Inr ms" "iterate l = Inr (take 10 ms)"
        "py_len members = Inr (int (length ms))" "py_len l = Inr (int (min 10 (length ms)))"
    by blast
  from p ms have eq: "map type_entry_of (take 10 ms) = map Inr (pokemon r)"
    by (auto dest: comprehension_Inr)
  then have "length (map type_entry_of (take 10 ms)) = length (map Inr (pokemon r) :: (exn + type_entry) list)"
    by simp
  then have "length (pokemon r) = min 10 (length ms)"
    by simp
  with m c n ms eq show ?thesis by auto
qed

theorem type_lookup_counts_and_entries_witness:
  "get_pokemon_by_type (always (ok_reply (type_payload (map type_member fire_members)))) ''fire''
     = Inr \<lparr> type_display = ''Fire'', type_id = JInt 10, pokemon_count = 12, showing = 10,
             pokemon =
               [ \<lparr> entry_name = ''Charmander'', entry_uri = ''poke://pokemon/charmander'' \<rparr>,
                 \<lparr> entry_name = ''Charmeleon'', entry_uri = ''poke://pokemon/charmeleon'' \<rparr>,
                 \<lparr> entry_name = ''Charizard'', entry_uri = ''poke://pokemon/charizard'' \<rparr>,
                 \<lparr> entry_name = ''Vulpix'', entry_uri = ''poke://pokemon/vulpix'' \<rparr>,
                 \<lparr> entry_name = ''Ninetales'', entry_uri = ''poke://pokemon/ninetales'' \<rparr>,
                 \<lparr> entry_name = ''Growlithe'', entry_uri = ''poke://pokemon/growlithe'' \<rparr>,
                 \<lparr> entry_name = ''Arcanine'', entry_uri = ''poke://pokemon/arcanine'' \<rparr>,
                 \<lparr> entry_name = ''Ponyta'', entry_uri = ''poke://pokemon/ponyta'' \<rparr>,
                 \<lparr> entry_name = ''Rapidash'', entry_uri = ''poke://pokemon/rapidash'' \<rparr>,
                 \<lparr> entry_name = ''Magmar'', entry_uri = ''poke://pokemon/magmar'' \<rparr> ] \<rparr>
   \<and> (\<exists>members ms.
         subscript (type_payload (map type_member fire_members)) ''pokemon'' = Inr members
       \<and> iterate members = Inr ms \<and> (12::int) = int (length ms)
       \<and> (10::int) = int (min 10 (length ms)))"
proof -
  let ?data = "type_payload (map type_member fire_members)"
  let ?resp = "\<lparr> status_code = 200, json_result = Inr ?data \<rparr>"
  let ?r = "\<lparr> type_display = ''Fire'', type_id = JInt 10, pokemon_count = 12, showing = 10,
             pokemon =
               [ \<lparr> entry_name = ''Charmander'', entry_uri = ''poke://pokemon/charmander'' \<rparr>,
                 \<lparr> entry_name = ''Charmeleon'', entry_uri = ''poke://pokemon/charmeleon'' \<rparr>,
                 \<lparr> entry_name = ''Charizard'', entry_uri = ''poke://pokemon/charizard'' \<rparr>,
                 \<lparr> entry_name = ''Vulpix'', entry_uri = ''poke://pokemon/vulpix'' \<rparr>,
                 \<lparr> entry_name = ''Ninetales'', entry_uri = ''poke://pokemon/ninetales'' \<rparr>,
                 \<lparr> entry_name = ''Growlithe'', entry_uri = ''poke://pokemon/growlithe'' \<rparr>,
                 \<lparr> entry_name = ''Arcanine'', entry_uri = ''poke://pokemon/arcanine'' \<rparr>,
                 \<lparr> entry_name = ''Ponyta'', entry_uri = ''poke://pokemon/ponyta'' \<rparr>,
                 \<lparr> entry_name = ''Rapidash'', entry_uri = ''poke://pokemon/rapidash'' \<rparr>,
                 \<lparr> entry_name = ''Magmar'', entry_uri = ''poke://pokemon/magmar'' \<rparr> ] \<rparr>"
  have a: "get_pokemon_by_type (always (ok_reply ?data)) ''fire'' = Inr ?r"
    by (simp add: handler_defs data_defs sample_defs )
  have b: "always (ok_reply ?data) (type_url ''fire'') = Replied ?resp"
    by (simp add: always_def ok_reply_def)
  have c: "json_result ?resp = Inr ?data"
    by simp
  from type_lookup_counts_and_entries [OF a b c] a show ?thesis
    by auto
qed

section \<open>The resources are functions of the upstream reply\<close>



section \<open>Start of the agent client: properties\<close>

text \<open>
  C7. When \<^verbatim>\<open>GROQ_API_KEY\<close> has no value (neither in the process environment nor in the
  \<^verbatim>\<open>.env\<close> file), the client ends with an unhandled \<^verbatim>\<open>TypeError\<close> at the assignment of
  line 19, before any later step is started: no model object, no server subprocess, no
  session.
\<close>

theorem missing_credential_is_fatal:
  "env ''GROQ_API_KEY'' = None \<Longrightarrow> dotenv ''GROQ_API_KEY'' = None \<Longrightarrow>
     client_process dotenv env outcome = ([], Some TypeError)"
  by (simp add: client_process_def module_setup_def load_dotenv_def getenv_def
      environ_setitem_def map_add_def)

theorem missing_credential_is_fatal_witness:
  "client_process Map.empty Map.empty no_failure = ([], Some TypeError)
   \<and> client_process Map.empty [''GROQ_API_KEY'' \<mapsto> ''gsk''] no_failure = (client_steps, None)"
proof -
  have a: "(Map.empty :: environ) ''GROQ_API_KEY'' = None" by simp
  from missing_credential_is_fatal [OF a a, of no_failure] show ?thesis
    by (simp add: client_process_def module_setup_def load_dotenv_def getenv_def
      environ_setitem_def client_steps_def no_failure_def)
qed

end
